theory Spec2Isabelle
  imports Complex_Main
begin

section \<open>Values received as tool arguments\<close>

text \<open>
  The type guards of \<^verbatim>\<open>src/src/index.ts\<close> take \<^verbatim>\<open>args: unknown\<close>. The arguments of a
  tool call arrive as deserialised JSON, or are absent, so a value is one of the JSON
  values or \<^verbatim>\<open>undefined\<close>. An object is the table of its own properties; a lookup
  takes the first binding of a name.
\<close>

datatype js_value =
    JUndefined
  | JNull
  | JBoolean bool
  | JNumber real
  | JString string
  | JArray "js_value list"
  | JObject "(string \<times> js_value) list"

text \<open>The one exception the operations used by the guards can raise.\<close>

datatype js_error = TypeError

text \<open>\<^verbatim>\<open>typeof v\<close>: \<^verbatim>\<open>null\<close> and arrays are \<^verbatim>\<open>'object'\<close>.\<close>

fun js_typeof :: "js_value \<Rightarrow> string" where
  "js_typeof JUndefined = ''undefined''"
| "js_typeof JNull = ''object''"
| "js_typeof (JBoolean b) = ''boolean''"
| "js_typeof (JNumber n) = ''number''"
| "js_typeof (JString s) = ''string''"
| "js_typeof (JArray xs) = ''object''"
| "js_typeof (JObject ps) = ''object''"

text \<open>The canonical decimal numeral of an array index, as a property name.\<close>

definition digit_char :: "nat \<Rightarrow> char" where
  "digit_char d = ''0123456789'' ! d"

fun index_name :: "nat \<Rightarrow> string" where
  "index_name n =
     (if n < 10 then [digit_char n] else index_name (n div 10) @ [digit_char (n mod 10)])"

declare index_name.simps [simp del]

text \<open>
  The own property names of an array are its indices and \<^verbatim>\<open>length\<close>. Names inherited
  from \<^verbatim>\<open>Object.prototype\<close> and \<^verbatim>\<open>Array.prototype\<close> are left out: none of them is
  \<^verbatim>\<open>url\<close>, \<^verbatim>\<open>urls\<close> or \<^verbatim>\<open>id\<close>, the only names the guards ask for.
\<close>

definition array_keys :: "js_value list \<Rightarrow> string list" where
  "array_keys xs = ''length'' # map index_name [0..<length xs]"

text \<open>
  \<^verbatim>\<open>k in v\<close>: raises a TypeError when the right operand is not an object
  (a primitive, \<^verbatim>\<open>null\<close> or \<^verbatim>\<open>undefined\<close>).
\<close>

fun js_in :: "string \<Rightarrow> js_value \<Rightarrow> js_error + bool" where
  "js_in k (JObject ps) = Inr (k \<in> set (map fst ps))"
| "js_in k (JArray xs) = Inr (k \<in> set (array_keys xs))"
| "js_in k v = Inl TypeError"

text \<open>
  \<^verbatim>\<open>v.k\<close>: raises a TypeError on \<^verbatim>\<open>null\<close> and \<^verbatim>\<open>undefined\<close>; a name that is
  not a property reads as \<^verbatim>\<open>undefined\<close>.
\<close>

fun js_get :: "js_value \<Rightarrow> string \<Rightarrow> js_error + js_value" where
  "js_get JUndefined k = Inl TypeError"
| "js_get JNull k = Inl TypeError"
| "js_get (JObject ps) k = Inr (case map_of ps k of Some x \<Rightarrow> x | None \<Rightarrow> JUndefined)"
| "js_get (JArray xs) k =
     Inr (if k = ''length'' then JNumber (real (length xs))
          else case map_of (zip (map index_name [0..<length xs]) xs) k of
                 Some x \<Rightarrow> x | None \<Rightarrow> JUndefined)"
| "js_get (JString s) k =
     Inr (if k = ''length'' then JNumber (real (length s))
          else case map_of (zip (map index_name [0..<length s]) s) k of
                 Some c \<Rightarrow> JString [c] | None \<Rightarrow> JUndefined)"
| "js_get v k = Inr JUndefined"

text \<open>
  \<^verbatim>\<open>a && b\<close> on booleans: \<^verbatim>\<open>b\<close> is evaluated only when \<^verbatim>\<open>a\<close> is true, so an
  exception of \<^verbatim>\<open>b\<close> is seen only then.
\<close>

fun js_and :: "js_error + bool \<Rightarrow> js_error + bool \<Rightarrow> js_error + bool" where
  "js_and (Inl e) b = Inl e"
| "js_and (Inr False) b = Inr False"
| "js_and (Inr True) b = b"

text \<open>An operand that reads a property first: the exception of the read is the operand's.\<close>

fun js_then :: "js_error + js_value \<Rightarrow> (js_value \<Rightarrow> js_error + bool) \<Rightarrow> js_error + bool" where
  "js_then (Inl e) f = Inl e"
| "js_then (Inr v) f = f v"

text \<open>\<^verbatim>\<open>Array.isArray(v)\<close>.\<close>

fun js_isArray :: "js_value \<Rightarrow> bool" where
  "js_isArray (JArray xs) = True"
| "js_isArray v = False"

text \<open>
  \<^verbatim>\<open>Array.prototype.every\<close>: the elements in order, stopping at the first for which the
  callback is false.
\<close>

fun every_elem :: "(js_value \<Rightarrow> js_error + bool) \<Rightarrow> js_value list \<Rightarrow> js_error + bool" where
  "every_elem p [] = Inr True"
| "every_elem p (x # xs) =
     (case p x of Inl e \<Rightarrow> Inl e | Inr True \<Rightarrow> every_elem p xs | Inr False \<Rightarrow> Inr False)"

text \<open>
  \<^verbatim>\<open>v.every(cb)\<close>: on a value that is not an array the method is missing, and the call
  raises a TypeError.
\<close>

fun js_every :: "js_value \<Rightarrow> (js_value \<Rightarrow> js_error + bool) \<Rightarrow> js_error + bool" where
  "js_every (JArray xs) p = every_elem p xs"
| "js_every v p = Inl TypeError"

section \<open>The type guards\<close>

text \<open>\<^verbatim>\<open>isScrapeOptions\<close>, index.ts lines 677 to 686.\<close>

definition isScrapeOptions :: "js_value \<Rightarrow> js_error + bool" where
  "isScrapeOptions args =
     js_and (js_and (js_and
       (Inr (js_typeof args = ''object''))
       (Inr (args \<noteq> JNull)))
       (js_in ''url'' args))
       (js_then (js_get args ''url'') (\<lambda>url. Inr (js_typeof url = ''string'')))"

text \<open>\<^verbatim>\<open>isMapOptions\<close>, index.ts lines 688 to 695.\<close>

definition isMapOptions :: "js_value \<Rightarrow> js_error + bool" where
  "isMapOptions args =
     js_and (js_and (js_and
       (Inr (js_typeof args = ''object''))
       (Inr (args \<noteq> JNull)))
       (js_in ''url'' args))
       (js_then (js_get args ''url'') (\<lambda>url. Inr (js_typeof url = ''string'')))"

text \<open>\<^verbatim>\<open>isCrawlOptions\<close>, index.ts lines 697 to 704.\<close>

definition isCrawlOptions :: "js_value \<Rightarrow> js_error + bool" where
  "isCrawlOptions args =
     js_and (js_and (js_and
       (Inr (js_typeof args = ''object''))
       (Inr (args \<noteq> JNull)))
       (js_in ''url'' args))
       (js_then (js_get args ''url'') (\<lambda>url. Inr (js_typeof url = ''string'')))"

text \<open>\<^verbatim>\<open>isBatchScrapeOptions\<close>, index.ts lines 706 to 714.\<close>

definition isBatchScrapeOptions :: "js_value \<Rightarrow> js_error + bool" where
  "isBatchScrapeOptions args =
     js_and (js_and (js_and (js_and
       (Inr (js_typeof args = ''object''))
       (Inr (args \<noteq> JNull)))
       (js_in ''urls'' args))
       (js_then (js_get args ''urls'') (\<lambda>urls. Inr (js_isArray urls))))
       (js_then (js_get args ''urls'')
          (\<lambda>urls. js_every urls (\<lambda>url. Inr (js_typeof url = ''string''))))"

text \<open>\<^verbatim>\<open>isStatusCheckOptions\<close>, index.ts lines 716 to 723.\<close>

definition isStatusCheckOptions :: "js_value \<Rightarrow> js_error + bool" where
  "isStatusCheckOptions args =
     js_and (js_and (js_and
       (Inr (js_typeof args = ''object''))
       (Inr (args \<noteq> JNull)))
       (js_in ''id'' args))
       (js_then (js_get args ''id'') (\<lambda>i. Inr (js_typeof i = ''string'')))"

section \<open>What the guards accept\<close>

text \<open>A non-null object with a property \<open>k\<close> whose value is a string.\<close>

definition has_string_field :: "string \<Rightarrow> js_value \<Rightarrow> bool" where
  "has_string_field k v =
     (case v of
        JObject ps \<Rightarrow> (case map_of ps k of Some (JString s) \<Rightarrow> True | _ \<Rightarrow> False)
      | _ \<Rightarrow> False)"

definition is_string :: "js_value \<Rightarrow> bool" where
  "is_string v = (case v of JString s \<Rightarrow> True | _ \<Rightarrow> False)"

text \<open>A non-null object with a property \<open>k\<close> whose value is an array of strings.\<close>

definition has_string_array_field :: "string \<Rightarrow> js_value \<Rightarrow> bool" where
  "has_string_array_field k v =
     (case v of
        JObject ps \<Rightarrow> (case map_of ps k of Some (JArray xs) \<Rightarrow> list_all is_string xs | _ \<Rightarrow> False)
      | _ \<Rightarrow> False)"

section \<open>The input schemas of the guarded tools\<close>












section \<open>The dispatch engine, from its specification\<close>

text \<open>
  The specification describes a Request Dispatch and Resilience Engine behind the tools:
  a Credit Ledger, a Job Tracker, a Transport Client and a Dispatcher, with a Rate
  Limiter and a Backoff Policy. None of their code is in \<^verbatim>\<open>src/\<close>, which ends with the
  type guards. The definitions of this section follow the words of the specification
  (sections 3, 4, 6 and 7 of \<^verbatim>\<open>spec.md\<close>); times are in milliseconds.
\<close>

subsection \<open>Credit Ledger\<close>

text \<open>
  Modelled from the spec: the Credit Ledger State (section 3), whose code is missing:
  the units consumed and the optional budget ceiling, unset meaning unlimited.
\<close>

record credit_ledger =
  consumed :: nat
  budget_ceiling :: "nat option"

text \<open>
  Modelled from the spec: \<^verbatim>\<open>recordUsage(units)\<close> of section 4.3, a counter increment
  with no rollback.
\<close>

definition recordUsage :: "nat \<Rightarrow> credit_ledger \<Rightarrow> credit_ledger" where
  "recordUsage units l = l\<lparr>consumed := consumed l + units\<rparr>"

text \<open>Modelled from the spec: \<^verbatim>\<open>remainingBudget() -> Option<units>\<close> of section 4.3.\<close>

definition remainingBudget :: "credit_ledger \<Rightarrow> nat option" where
  "remainingBudget l = map_option (\<lambda>c. c - consumed l) (budget_ceiling l)"

text \<open>Modelled from the spec: \<^verbatim>\<open>wouldExceed(units) -> bool\<close> of section 4.3.\<close>

definition wouldExceed :: "nat \<Rightarrow> credit_ledger \<Rightarrow> bool" where
  "wouldExceed units l =
     (case budget_ceiling l of None \<Rightarrow> False | Some c \<Rightarrow> c < consumed l + units)"

text \<open>
  Modelled from the spec: the condition of the ledger's invariant (section 3) under which
  the Dispatcher refuses admission: a ceiling is configured and consumed \<open>\<ge>\<close> ceiling.
\<close>

definition budget_spent :: "credit_ledger \<Rightarrow> bool" where
  "budget_spent l = (case budget_ceiling l of None \<Rightarrow> False | Some c \<Rightarrow> c \<le> consumed l)"

subsection \<open>Job Tracker\<close>

text \<open>Modelled from the spec: the status of a Job Record (section 3).\<close>

datatype job_status = Pending | Processing | Completed | JobFailed

text \<open>Modelled from the spec: the Job Record (section 3), whose code is missing.\<close>

record job_record =
  job_id :: string
  submitted_at :: nat
  status :: job_status
  last_polled :: "nat option"
  fragments :: "js_value list"
  error_detail :: "string option"

text \<open>
  Modelled from the spec: the Job Tracker (section 4.5), a map from job identifiers to
  their records.
\<close>

type_synonym job_tracker = "string \<rightharpoonup> job_record"

text \<open>Modelled from the spec: the result of \<^verbatim>\<open>get(jobId) -> Job Record | NotFound\<close>.\<close>

datatype lookup = Found job_record | NotFound

text \<open>
  Modelled from the spec: \<^verbatim>\<open>create(jobId) -> Job Record\<close> of section 4.5, called on a
  successful asynchronous submission, at time \<open>t\<close>.
\<close>

definition create_job :: "string \<Rightarrow> nat \<Rightarrow> job_tracker \<Rightarrow> job_record \<times> job_tracker" where
  "create_job jid t tr =
     (let r = \<lparr>job_id = jid, submitted_at = t, status = Pending, last_polled = None,
                fragments = [], error_detail = None\<rparr>
      in (r, tr(jid \<mapsto> r)))"

text \<open>
  Modelled from the spec: \<^verbatim>\<open>update(jobId, status, resultFragment?)\<close> of section 4.5,
  called by a poll at time \<open>t\<close>. Records are created on submission only, so an unknown
  identifier leaves the tracker as it is.
\<close>

definition update_job ::
  "string \<Rightarrow> job_status \<Rightarrow> js_value option \<Rightarrow> nat \<Rightarrow> job_tracker \<Rightarrow> job_tracker" where
  "update_job jid s frag t tr =
     (case tr jid of
        None \<Rightarrow> tr
      | Some r \<Rightarrow>
          tr(jid \<mapsto> r\<lparr>status := s, last_polled := Some t,
                        fragments := fragments r @ (case frag of None \<Rightarrow> [] | Some f \<Rightarrow> [f])\<rparr>))"

text \<open>Modelled from the spec: \<^verbatim>\<open>get(jobId) -> Job Record | NotFound\<close> of section 4.5.\<close>

definition get_job :: "job_tracker \<Rightarrow> string \<Rightarrow> lookup" where
  "get_job tr jid = (case tr jid of None \<Rightarrow> NotFound | Some r \<Rightarrow> Found r)"

subsection \<open>Requests, responses and outcomes\<close>

text \<open>Modelled from the spec: the variants of an Operation Request (section 3).\<close>

datatype op_kind =
    OpScrape | OpMap | OpCrawl | OpBatchScrape | OpSearch | OpExtract
  | OpCheckBatchStatus | OpCheckCrawlStatus | OpDeepResearch | OpGenerateLlmsText

text \<open>Modelled from the spec: the Operation Request (section 3), a variant with its payload.\<close>

record operation_request =
  kind :: op_kind
  payload :: js_value

text \<open>Modelled from the spec: the error classes of the Backoff Policy's contract (section 4.2).\<close>

datatype error_class = RateLimited | ServerError | NetworkTimeout | Unknown

text \<open>
  Modelled from the spec: the classification of a failed response (sections 4.4 and 6):
  throttled (429, with the retry-after hint when the upstream gives one), timeout,
  server error (5xx), or a 4xx other than rate-limit.
\<close>

datatype upstream_error = Throttled "nat option" | Timeout | Server5xx | Client4xx

text \<open>
  Modelled from the spec: a response of the upstream service (section 6): a result
  payload with the optional usage count and the optional job identifier, or an error
  with its classification and detail.
\<close>

datatype response =
    Ok js_value "nat option" "string option"
  | Error upstream_error string

text \<open>Modelled from the spec: the failure kinds of the taxonomy (section 7).\<close>

datatype failure_kind =
    ValidationFailure | RateLimitedFailure | TransientFailure | BudgetExceeded
  | PermanentFailure | PollTimedOut

text \<open>
  Modelled from the spec: the terminal outcome that crosses back to the caller
  (section 7): a result, the identifier of a submitted job, or a named failure kind
  with a detail string.
\<close>

datatype outcome = Succeeded js_value | Submitted string | Failed failure_kind string

text \<open>Modelled from the spec: the outcome of the Rate Limiter's \<^verbatim>\<open>admit\<close> (section 4.1).\<close>

datatype admission = Admitted | MustWaitUntil nat

subsection \<open>Dispatcher\<close>

text \<open>
  Modelled from the spec: what the Dispatcher is given by its collaborators. The
  upstream service answers the n-th network call to a request; the Rate Limiter and the
  Backoff Policy enter through their contracts, \<^verbatim>\<open>admit(cost)\<close> at a time on a limiter
  state (section 4.1) and \<^verbatim>\<open>nextDelay(attempt, errorClass)\<close> with the upstream's
  retry-after hint (section 4.2). The policy is randomised, so its first argument numbers
  the draw. \<open>cancelled t\<close> says whether the caller has abandoned the operation by time
  \<open>t\<close> (section 5).
\<close>

record 'l environment =
  upstream :: "nat \<Rightarrow> operation_request \<Rightarrow> response"
  admit :: "nat \<Rightarrow> nat \<Rightarrow> 'l \<Rightarrow> admission \<times> 'l"
  nextDelay :: "nat \<Rightarrow> nat \<Rightarrow> error_class \<Rightarrow> nat option \<Rightarrow> nat"
  cancelled :: "nat \<Rightarrow> bool"

text \<open>
  Modelled from the spec: the configuration the Dispatcher reads (section 6): the
  maximum number of attempts, the cost weight of each operation kind, and the overall
  deadline of an operation, counted from its start.
\<close>

record dispatcher_config =
  max_attempts :: nat
  cost_of :: "op_kind \<Rightarrow> nat"
  deadline :: nat

text \<open>
  Modelled from the spec: the state objects the Dispatcher holds (section 9): the
  Credit Ledger, the Rate Limiter state, the Job Tracker, the clock, and the number of
  network calls the Transport Client has issued.
\<close>

record 'l engine =
  ledger :: credit_ledger
  limiter :: 'l
  tracker :: job_tracker
  now :: nat
  transport_calls :: nat

text \<open>Modelled from the spec: the transient classifications (timeout, 429, 5xx; section 4.4).\<close>

fun transient :: "upstream_error \<Rightarrow> bool" where
  "transient (Throttled h) = True"
| "transient Timeout = True"
| "transient Server5xx = True"
| "transient Client4xx = False"

text \<open>Modelled from the spec: the error class handed to the Backoff Policy.\<close>

fun error_class_of :: "upstream_error \<Rightarrow> error_class" where
  "error_class_of (Throttled h) = RateLimited"
| "error_class_of Timeout = NetworkTimeout"
| "error_class_of Server5xx = ServerError"
| "error_class_of Client4xx = Unknown"

text \<open>
  Modelled from the spec: the retry-after hint of a rate-limited response, handed to
  the Backoff Policy when present (section 4.2).
\<close>

fun retry_after :: "upstream_error \<Rightarrow> nat option" where
  "retry_after (Throttled h) = h"
| "retry_after e = None"

text \<open>
  Modelled from the spec: the failure kind of a terminal error (section 7): throttling
  is RateLimited, a timeout or 5xx is TransientFailure, another 4xx is PermanentFailure.
\<close>

fun failure_of :: "upstream_error \<Rightarrow> failure_kind" where
  "failure_of (Throttled h) = RateLimitedFailure"
| "failure_of Timeout = TransientFailure"
| "failure_of Server5xx = TransientFailure"
| "failure_of Client4xx = PermanentFailure"

text \<open>
  Modelled from the spec: the transition Queued to Admitted (section 4.4): the Rate
  Limiter admits, or the operation waits until the timestamp the limiter suggests.
\<close>

definition await_admission :: "'l environment \<Rightarrow> nat \<Rightarrow> 'l engine \<Rightarrow> 'l engine" where
  "await_admission env cost st =
     (case admit env cost (now st) (limiter st) of
        (Admitted, l) \<Rightarrow> st\<lparr>limiter := l\<rparr>
      | (MustWaitUntil t, l) \<Rightarrow> st\<lparr>limiter := l, now := t\<rparr>)"

text \<open>
  Modelled from the spec: the Transport Client (section 2), one network call per
  invocation; it records in the Credit Ledger the usage a successful response reports.
\<close>

definition transport_call ::
  "'l environment \<Rightarrow> operation_request \<Rightarrow> 'l engine \<Rightarrow> response \<times> 'l engine" where
  "transport_call env req st =
     (let resp = upstream env (transport_calls st) req;
          st' = st\<lparr>transport_calls := transport_calls st + 1\<rparr>
      in case resp of
           Ok res (Some units) job \<Rightarrow> (resp, st'\<lparr>ledger := recordUsage units (ledger st')\<rparr>)
         | _ \<Rightarrow> (resp, st'))"

text \<open>
  Modelled from the spec: the time at which the retry after a failed attempt may start:
  the clock plus the Backoff Policy's delay for the attempt, the error class and the
  retry-after hint (the next permitted retry time of the Retry Attempt State, section 3).
\<close>

definition retry_time ::
  "'l environment \<Rightarrow> nat \<Rightarrow> nat \<Rightarrow> upstream_error \<Rightarrow> 'l engine \<Rightarrow> nat" where
  "retry_time env draw attempt e st =
     now st + nextDelay env draw attempt (error_class_of e) (retry_after e)"

text \<open>
  Modelled from the spec: the Dispatcher's cycle of attempts for one operation started
  at time \<open>started\<close> (sections 4.4 and 5), from Admitted through InFlight to Succeeded,
  RetryScheduled or Failed. On a transient response the attempt counter is incremented
  and the next attempt is scheduled at the retry time, provided the counter stays below
  the maximum, the caller has not abandoned the operation, and the retry time is within
  the overall deadline. Otherwise (a permanent response, the retry budget exhausted, the
  operation abandoned, or the deadline exceeded while RetryScheduled) the operation
  fails with the kind of its last error. A response with a job identifier is recorded
  in the Job Tracker and the identifier returned; the polling chain that follows a
  submission is not part of the cycle.
\<close>

function attempt_cycle ::
  "dispatcher_config \<Rightarrow> 'l environment \<Rightarrow> operation_request \<Rightarrow> nat \<Rightarrow> nat \<Rightarrow> 'l engine
     \<Rightarrow> outcome \<times> 'l engine" where
  "attempt_cycle cfg env req started attempt st =
     (case transport_call env req (await_admission env (cost_of cfg (kind req)) st) of
        (Ok res units None, st') \<Rightarrow> (Succeeded res, st')
      | (Ok res units (Some jid), st') \<Rightarrow>
          (Submitted jid, st'\<lparr>tracker := snd (create_job jid (now st') (tracker st'))\<rparr>)
      | (Error e detail, st') \<Rightarrow>
          if transient e \<and> attempt + 1 < max_attempts cfg
             \<and> \<not> cancelled env (now st')
             \<and> retry_time env (transport_calls st) attempt e st' \<le> started + deadline cfg
          then attempt_cycle cfg env req started (attempt + 1)
                 (st'\<lparr>now := retry_time env (transport_calls st) attempt e st'\<rparr>)
          else (Failed (failure_of e) detail, st'))"
  by pat_completeness auto
termination
  by (relation "measure (\<lambda>(cfg, env, req, started, attempt, st). max_attempts cfg - attempt)")
     auto

declare attempt_cycle.simps [simp del]

text \<open>
  Modelled from the spec: the Dispatcher's entry (sections 3 and 7): the pre-flight
  check against the Credit Ledger, then the cycle of attempts with the counter at 0,
  started at the current time.
\<close>

definition dispatch ::
  "dispatcher_config \<Rightarrow> 'l environment \<Rightarrow> operation_request \<Rightarrow> 'l engine
     \<Rightarrow> outcome \<times> 'l engine" where
  "dispatch cfg env req st =
     (if budget_spent (ledger st) then (Failed BudgetExceeded ''credit budget consumed'', st)
      else attempt_cycle cfg env req (now st) 0 st)"

subsection \<open>Protocol boundary\<close>



section \<open>Properties of the type guards\<close>

lemma digit_char_digit: "d < 10 \<Longrightarrow> digit_char d \<in> set ''0123456789''"
proof -
  assume "d < 10"
  then have "d \<in> {0, 1, 2, 3, 4, 5, 6, 7, 8, 9}" by auto
  then show ?thesis by (auto simp: digit_char_def)
qed

lemma index_name_digits: "set (index_name n) \<subseteq> set ''0123456789''"
proof (induction n rule: index_name.induct)
  case (1 n)
  show ?case
  proof (cases "n < 10")
    case True
    then show ?thesis using digit_char_digit[of n] by (subst index_name.simps) simp
  next
    case False
    have "n mod 10 < 10" by simp
    then have "digit_char (n mod 10) \<in> set ''0123456789''" by (rule digit_char_digit)
    with False 1 show ?thesis by (subst index_name.simps) simp
  qed
qed

lemma not_index_name:
  assumes "c \<in> set k" and "c \<notin> set ''0123456789''"
  shows "k \<noteq> index_name n"
proof
  assume "k = index_name n"
  with assms(1) have "c \<in> set (index_name n)" by simp
  with index_name_digits[of n] have "c \<in> set ''0123456789''" by blast
  with assms(2) show False by contradiction
qed

lemma js_and_Inr: "js_and (Inr a) (Inr b) = Inr (a \<and> b)"
  by (cases a) simp_all

lemma js_in_array:
  assumes "c \<in> set k" and "c \<notin> set ''0123456789''" and "k \<noteq> ''length''"
  shows "js_in k (JArray xs) = Inr False"
  using not_index_name[OF assms(1,2)] assms(3) by (auto simp: array_keys_def)

lemma every_elem_total: "every_elem (\<lambda>u. Inr (p u)) xs = Inr (list_all p xs)"
proof (induction xs)
  case Nil
  show ?case by simp
next
  case (Cons x xs)
  then show ?case by (cases "p x") simp_all
qed

lemma typeof_string: "(js_typeof u = ''string'') = is_string u"
  by (cases u) (simp_all add: is_string_def)

lemma string_field_guard:
  assumes "c \<in> set k" and "c \<notin> set ''0123456789''" and "k \<noteq> ''length''"
  shows "js_and (js_and (js_and
           (Inr (js_typeof v = ''object''))
           (Inr (v \<noteq> JNull)))
           (js_in k v))
           (js_then (js_get v k) (\<lambda>u. Inr (js_typeof u = ''string'')))
         = Inr (has_string_field k v)"
proof (cases v)
  case (JArray xs)
  then have no_field: "js_in k v = Inr False"
    by (simp only: js_in_array[OF assms])
  have "has_string_field k v = False"
    using JArray by (simp add: has_string_field_def)
  then show ?thesis
    by (simp only: no_field js_and_Inr js_and.simps simp_thms)
next
  case (JObject ps)
  show ?thesis
  proof (cases "map_of ps k")
    case None
    then have "k \<notin> fst ` set ps" by (simp add: map_of_eq_None_iff)
    with None JObject show ?thesis by (simp add: has_string_field_def)
  next
    case (Some x)
    then have "k \<in> fst ` set ps" by (metis map_of_eq_None_iff option.distinct(1))
    with Some JObject show ?thesis
      by (cases x) (simp_all add: has_string_field_def)
  qed
qed (simp_all add: has_string_field_def)

lemma isScrapeOptions_eq: "isScrapeOptions v = Inr (has_string_field ''url'' v)"
  unfolding isScrapeOptions_def by (rule string_field_guard[of "CHR ''u''"]) simp_all

lemma isMapOptions_eq: "isMapOptions v = Inr (has_string_field ''url'' v)"
  unfolding isMapOptions_def by (rule string_field_guard[of "CHR ''u''"]) simp_all

lemma isCrawlOptions_eq: "isCrawlOptions v = Inr (has_string_field ''url'' v)"
  unfolding isCrawlOptions_def by (rule string_field_guard[of "CHR ''u''"]) simp_all

lemma isStatusCheckOptions_eq: "isStatusCheckOptions v = Inr (has_string_field ''id'' v)"
  unfolding isStatusCheckOptions_def by (rule string_field_guard[of "CHR ''i''"]) simp_all

lemma isBatchScrapeOptions_eq:
  "isBatchScrapeOptions v = Inr (has_string_array_field ''urls'' v)"
proof (cases v)
  case (JArray xs)
  have "js_in ''urls'' v = Inr False"
    unfolding JArray by (rule js_in_array[of "CHR ''u''"]) simp_all
  moreover have "has_string_array_field ''urls'' v = False"
    using JArray by (simp add: has_string_array_field_def)
  ultimately show ?thesis
    unfolding isBatchScrapeOptions_def
    by (simp only: js_and_Inr js_and.simps simp_thms)
next
  case (JObject ps)
  show ?thesis
  proof (cases "map_of ps ''urls''")
    case None
    then have "''urls'' \<notin> fst ` set ps" by (simp add: map_of_eq_None_iff)
    with None JObject show ?thesis
      by (simp add: isBatchScrapeOptions_def has_string_array_field_def)
  next
    case (Some x)
    then have "''urls'' \<in> fst ` set ps" by (metis map_of_eq_None_iff option.distinct(1))
    with Some JObject show ?thesis
      by (cases x)
        (simp_all add: isBatchScrapeOptions_def has_string_array_field_def
           typeof_string every_elem_total)
  qed
qed (simp_all add: isBatchScrapeOptions_def has_string_array_field_def)

lemma has_string_field_iff:
  "has_string_field k v = (\<exists>ps s. v = JObject ps \<and> map_of ps k = Some (JString s))"
  by (auto simp: has_string_field_def split: js_value.splits option.splits)













text \<open>
  Claim C8. \<^verbatim>\<open>isScrapeOptions\<close>, \<^verbatim>\<open>isMapOptions\<close> and \<^verbatim>\<open>isCrawlOptions\<close> are the
  same function: on every value the three return the same result, and each returns
  true exactly on the non-null objects with a string-valued \<^verbatim>\<open>url\<close> property.
\<close>

theorem url_guards_equal:
  "isScrapeOptions = isMapOptions \<and> isMapOptions = isCrawlOptions
   \<and> (isScrapeOptions v = Inr True)
       = (\<exists>ps s. v = JObject ps \<and> map_of ps ''url'' = Some (JString s))
   \<and> (isMapOptions v = Inr True)
       = (\<exists>ps s. v = JObject ps \<and> map_of ps ''url'' = Some (JString s))
   \<and> (isCrawlOptions v = Inr True)
       = (\<exists>ps s. v = JObject ps \<and> map_of ps ''url'' = Some (JString s))"
proof -
  have "isScrapeOptions = isMapOptions"
    by (rule ext) (simp add: isScrapeOptions_def isMapOptions_def)
  moreover have "isMapOptions = isCrawlOptions"
    by (rule ext) (simp add: isMapOptions_def isCrawlOptions_def)
  moreover have "(isScrapeOptions v = Inr True)
       = (\<exists>ps s. v = JObject ps \<and> map_of ps ''url'' = Some (JString s))"
    by (simp add: isScrapeOptions_eq has_string_field_iff)
  moreover have "(isMapOptions v = Inr True)
       = (\<exists>ps s. v = JObject ps \<and> map_of ps ''url'' = Some (JString s))"
    by (simp add: isMapOptions_eq has_string_field_iff)
  moreover have "(isCrawlOptions v = Inr True)
       = (\<exists>ps s. v = JObject ps \<and> map_of ps ''url'' = Some (JString s))"
    by (simp add: isCrawlOptions_eq has_string_field_iff)
  ultimately show ?thesis by blast
qed

text \<open>
  Claim C9. Each of the five type guards returns a boolean on every value and never
  raises: the operands that can raise (\<^verbatim>\<open>in\<close> on a primitive, a property read on
  \<^verbatim>\<open>null\<close> or \<^verbatim>\<open>undefined\<close>, \<^verbatim>\<open>every\<close> on a value that is not an array) are
  evaluated only after the operands that exclude those values.
\<close>

theorem guards_total:
  "(\<exists>b. isScrapeOptions v = Inr b)
   \<and> (\<exists>b. isMapOptions v = Inr b)
   \<and> (\<exists>b. isCrawlOptions v = Inr b)
   \<and> (\<exists>b. isBatchScrapeOptions v = Inr b)
   \<and> (\<exists>b. isStatusCheckOptions v = Inr b)"
  by (simp add: isScrapeOptions_eq isMapOptions_eq isCrawlOptions_eq
      isBatchScrapeOptions_eq isStatusCheckOptions_eq)

text \<open>
  Claim C10. \<^verbatim>\<open>isBatchScrapeOptions\<close> returns true on an object whose \<^verbatim>\<open>urls\<close> is the
  empty array, and its result depends on the \<^verbatim>\<open>urls\<close> property alone: two objects
  with the same \<^verbatim>\<open>urls\<close> get the same answer, whatever their \<^verbatim>\<open>options\<close> are.
\<close>

theorem isBatchScrapeOptions_empty_urls:
  "isBatchScrapeOptions (JObject [(''urls'', JArray [])]) = Inr True
   \<and> (\<forall>ps qs. map_of ps ''urls'' = map_of qs ''urls''
         \<longrightarrow> isBatchScrapeOptions (JObject ps) = isBatchScrapeOptions (JObject qs))"
  by (simp add: isBatchScrapeOptions_eq has_string_array_field_def)

theorem isBatchScrapeOptions_empty_urls_witness:
  "map_of [(''options'', JNumber 5), (''urls'', JArray [])] ''urls''
     = map_of [(''urls'', JArray [])] ''urls''
   \<and> isBatchScrapeOptions (JObject [(''options'', JNumber 5), (''urls'', JArray [])]) = Inr True"
proof -
  have same: "map_of [(''options'', JNumber 5), (''urls'', JArray [])] ''urls''
                = map_of [(''urls'', JArray [])] ''urls''"
    by simp
  from isBatchScrapeOptions_empty_urls
  have "isBatchScrapeOptions (JObject [(''urls'', JArray [])]) = Inr True"
    and "map_of [(''options'', JNumber 5), (''urls'', JArray [])] ''urls''
           = map_of [(''urls'', JArray [])] ''urls''
         \<longrightarrow> isBatchScrapeOptions (JObject [(''options'', JNumber 5), (''urls'', JArray [])])
             = isBatchScrapeOptions (JObject [(''urls'', JArray [])])"
    by blast+
  with same show ?thesis by simp
qed

section \<open>Properties of the dispatch engine\<close>

text \<open>
  Claim C4. When a credit budget is configured and already consumed, the Dispatcher
  rejects a new request with BudgetExceeded before anything else happens: the engine
  state it returns is the one it was given, so the Transport Client has issued no call
  for the request and the Credit Ledger is unchanged.
\<close>

theorem dispatch_budget_exceeded:
  assumes "budget_ceiling (ledger st) = Some c" and "c \<le> consumed (ledger st)"
  shows "dispatch cfg env req st = (Failed BudgetExceeded ''credit budget consumed'', st)"
  using assms by (simp add: dispatch_def budget_spent_def)

theorem dispatch_budget_exceeded_witness:
  "budget_ceiling \<lparr>consumed = 100, budget_ceiling = Some 100\<rparr> = Some 100
   \<and> (100::nat) \<le> consumed \<lparr>consumed = 100, budget_ceiling = Some 100\<rparr>
   \<and> fst (dispatch
         \<lparr>max_attempts = 3, cost_of = (\<lambda>k. 1), deadline = 60000\<rparr>
         \<lparr>upstream = (\<lambda>n r. Ok JNull (Some 1) None),
          admit = (\<lambda>c t l. (Admitted, l)),
          nextDelay = (\<lambda>i a e h. 1000 * 2 ^ a),
          cancelled = (\<lambda>t. False)\<rparr>
         \<lparr>kind = OpScrape, payload = JObject [(''url'', JString ''https://example.com'')]\<rparr>
         \<lparr>ledger = \<lparr>consumed = 100, budget_ceiling = Some 100\<rparr>, limiter = (),
          tracker = Map.empty, now = 0, transport_calls = 0\<rparr>)
       = Failed BudgetExceeded ''credit budget consumed''
   \<and> transport_calls (snd (dispatch
         \<lparr>max_attempts = 3, cost_of = (\<lambda>k. 1), deadline = 60000\<rparr>
         \<lparr>upstream = (\<lambda>n r. Ok JNull (Some 1) None),
          admit = (\<lambda>c t l. (Admitted, l)),
          nextDelay = (\<lambda>i a e h. 1000 * 2 ^ a),
          cancelled = (\<lambda>t. False)\<rparr>
         \<lparr>kind = OpScrape, payload = JObject [(''url'', JString ''https://example.com'')]\<rparr>
         \<lparr>ledger = \<lparr>consumed = 100, budget_ceiling = Some 100\<rparr>, limiter = (),
          tracker = Map.empty, now = 0, transport_calls = 0\<rparr>)) = 0"
  using dispatch_budget_exceeded
    [of "\<lparr>ledger = \<lparr>consumed = 100, budget_ceiling = Some 100\<rparr>, limiter = (),
          tracker = Map.empty, now = 0, transport_calls = 0\<rparr>"
        100
        "\<lparr>max_attempts = 3, cost_of = (\<lambda>k. 1), deadline = 60000\<rparr>"
        "\<lparr>upstream = (\<lambda>n r. Ok JNull (Some 1) None),
          admit = (\<lambda>c t l. (Admitted, l)),
          nextDelay = (\<lambda>i a e h. 1000 * 2 ^ a),
          cancelled = (\<lambda>t. False)\<rparr>"
        "\<lparr>kind = OpScrape, payload = JObject [(''url'', JString ''https://example.com'')]\<rparr>"]
  by simp

text \<open>
  Claim C6. A lookup of a job identifier that the Job Tracker does not hold yields
  NotFound: \<open>get_job\<close> has no failing case and returns no record for it.
\<close>

theorem get_job_unknown:
  assumes "jid \<notin> dom tr"
  shows "get_job tr jid = NotFound"
  using assms by (auto simp: get_job_def split: option.splits)

theorem get_job_unknown_witness:
  "''J2'' \<notin> dom (snd (create_job ''J1'' 0 Map.empty))
   \<and> get_job (snd (create_job ''J1'' 0 Map.empty)) ''J2'' = NotFound"
proof -
  have absent: "''J2'' \<notin> dom (snd (create_job ''J1'' 0 Map.empty))"
    by (simp add: create_job_def Let_def)
  from get_job_unknown[OF absent] absent show ?thesis by simp
qed

end
